theory Spec2Isabelle
  imports Complex_Main "HOL-Library.Sublist" "HOL-Library.Multiset"
begin

section \<open>Common types\<close>

text \<open>
  A naive \<open>datetime\<close> is a count of microseconds since \<open>datetime.min\<close>, so every value
  is at or after \<open>datetime.min\<close> and the order is the order of \<open>datetime\<close>.
  Durations (\<open>timedelta.total_seconds()\<close>) and the floats of the proxy pool and of the
  rate limiter are rationals: finite values with exact arithmetic and exact comparison.
  The floats that the attribute filter compares come from \<open>float\<close> on arbitrary text; they
  have their own type below, with the infinities and NaN.
\<close>

type_synonym datetime = nat

definition datetime_min :: datetime where
  "datetime_min = 0"

text \<open>Truthiness of an \<open>Optional[float]\<close>: \<open>None\<close> and \<open>0.0\<close> are false.\<close>

fun truthy_float :: "rat option \<Rightarrow> bool" where
  "truthy_float None = False"
| "truthy_float (Some x) = (x \<noteq> 0)"


section \<open>Proxy pool (proxy\_manager.py)\<close>

subsection \<open>Entries and the pool\<close>

text \<open>
  \<open>add_proxy\<close> builds one dictionary per call and stores the same object twice: at the
  end of the list \<open>self.proxies\<close> and under its url in \<open>self.proxy_health\<close>. The pool
  keeps the objects in the list and the health table maps a url to the position of its
  object, so an update through the table is seen through the list.
\<close>

record proxy_info =
  url :: string
  proxy_type :: string
  success_count :: nat
  failure_count :: nat
  last_used :: "datetime option"
  last_success :: "datetime option"
  is_healthy :: bool
  response_time :: "rat option"

record proxy_manager =
  proxies :: "proxy_info list"
  proxy_health :: "string \<rightharpoonup> nat"

definition empty_manager :: proxy_manager where
  "empty_manager = \<lparr>proxies = [], proxy_health = Map.empty\<rparr>"

definition valid_prefixes :: "string list" where
  "valid_prefixes = [''http://'', ''https://'', ''socks4://'', ''socks5://'']"

definition is_valid_proxy_url :: "string \<Rightarrow> bool" where
  "is_valid_proxy_url proxy_url = list_ex (\<lambda>p. prefix p proxy_url) valid_prefixes"

definition new_proxy_info :: "string \<Rightarrow> string \<Rightarrow> proxy_info" where
  "new_proxy_info proxy_url ptype =
     \<lparr>url = proxy_url, proxy_type = ptype, success_count = 0, failure_count = 0,
      last_used = None, last_success = None, is_healthy = True, response_time = None\<rparr>"

text \<open>The result is the returned flag together with the pool after the call.\<close>

definition add_proxy :: "string \<Rightarrow> string \<Rightarrow> proxy_manager \<Rightarrow> bool \<times> proxy_manager" where
  "add_proxy proxy_url ptype m =
     (if \<not> is_valid_proxy_url proxy_url then (False, m)
      else (True, m\<lparr>proxies := proxies m @ [new_proxy_info proxy_url ptype],
                     proxy_health := (proxy_health m)(proxy_url \<mapsto> length (proxies m))\<rparr>))"

text \<open>A pool holding the single entry \<open>http://10.0.0.1:8080\<close>.\<close>

definition pool_one :: proxy_manager where
  "pool_one = snd (add_proxy ''http://10.0.0.1:8080'' ''http'' empty_manager)"


subsection \<open>Reporting a result\<close>

text \<open>
  \<open>report_proxy_result\<close> tests both the new sample and the stored one by truthiness
  (\<open>if response_time:\<close>, \<open>if proxy_info['response_time']:\<close>), so \<open>0.0\<close> is treated as
  \<open>None\<close> in both places.
\<close>

fun rolling_response_time :: "rat option \<Rightarrow> rat option \<Rightarrow> rat option" where
  "rolling_response_time old None = old"
| "rolling_response_time old (Some new) =
     (if new = 0 then old
      else (case old of
              None \<Rightarrow> Some new
            | Some prev \<Rightarrow> if prev = 0 then Some new else Some ((prev + new) / 2)))"

text \<open>The update of the entry's dictionary; \<open>now\<close> is what \<open>datetime.utcnow()\<close> returns.\<close>

definition report_update :: "datetime \<Rightarrow> bool \<Rightarrow> rat option \<Rightarrow> proxy_info \<Rightarrow> proxy_info" where
  "report_update now success rt p =
     (if success
      then p\<lparr>success_count := success_count p + 1, last_success := Some now,
             is_healthy := True, response_time := rolling_response_time (response_time p) rt\<rparr>
      else (if failure_count p + 1 > success_count p + 3
            then p\<lparr>failure_count := failure_count p + 1, is_healthy := False\<rparr>
            else p\<lparr>failure_count := failure_count p + 1\<rparr>))"

definition report_proxy_result ::
  "datetime \<Rightarrow> string \<Rightarrow> bool \<Rightarrow> rat option \<Rightarrow> proxy_manager \<Rightarrow> proxy_manager" where
  "report_proxy_result now proxy_url success rt m =
     (case proxy_health m proxy_url of
        None \<Rightarrow> m
      | Some a \<Rightarrow> m\<lparr>proxies := (proxies m)[a := report_update now success rt (proxies m ! a)]\<rparr>)"

text \<open>The lookup \<open>self.proxy_health[proxy_url]\<close> of a tracked url.\<close>

definition tracked_entry :: "proxy_manager \<Rightarrow> string \<Rightarrow> proxy_info option" where
  "tracked_entry m proxy_url =
     (case proxy_health m proxy_url of
        None \<Rightarrow> None
      | Some a \<Rightarrow> if a < length (proxies m) then Some (proxies m ! a) else None)"

text \<open>The pool of one entry after one successful request that took two seconds.\<close>

definition pool_measured :: proxy_manager where
  "pool_measured = report_proxy_result 0 ''http://10.0.0.1:8080'' True (Some 2) pool_one"


subsection \<open>Selection\<close>

text \<open>
  \<open>proxy_score\<close> is the key function of \<open>select_best_proxy\<close>. Its result is \<open>None\<close>
  where the division \<open>1.0 / (1.0 + response_time)\<close> raises \<open>ZeroDivisionError\<close>. The stored
  response time is tested by truthiness, so \<open>0.0\<close> takes the branch of \<open>None\<close>.
\<close>

definition proxy_score :: "proxy_info \<Rightarrow> rat option" where
  "proxy_score proxy =
     (let total_requests = success_count proxy + failure_count proxy;
          success_rate = (if total_requests = 0 then 1
                          else of_nat (success_count proxy) / of_nat total_requests)
      in if truthy_float (response_time proxy)
         then (case response_time proxy of
                 None \<Rightarrow> Some (success_rate * 1)
               | Some rt \<Rightarrow> if 1 + rt = 0 then None
                            else Some (success_rate * max (1 / 10) (1 / (1 + rt))))
         else Some (success_rate * 1))"

text \<open>
  The key under which \<open>sorted\<close> orders the entries. The value for a raising score is
  never used: \<open>select_best_proxy\<close> takes the \<open>except\<close> branch first.
\<close>

definition score_key :: "proxy_info \<Rightarrow> rat" where
  "score_key proxy = (case proxy_score proxy of None \<Rightarrow> 0 | Some s \<Rightarrow> s)"

text \<open>
  \<open>sorted(healthy_proxies, key=proxy_score, reverse=True)\<close>: a stable sort by descending
  score (entries of equal score keep their order).
\<close>

definition sorted_proxies :: "proxy_info list \<Rightarrow> proxy_info list" where
  "sorted_proxies healthy_proxies = sort_key (\<lambda>p. - score_key p) healthy_proxies"



definition bisect :: "nat list \<Rightarrow> rat \<Rightarrow> nat \<Rightarrow> nat" where
  "bisect a x hi = length (takeWhile (\<lambda>c. of_nat c \<le> x) (take hi a))"










section \<open>Rate limiter (vinted\_scraper.py)\<close>

text \<open>
  \<open>self.last_requests\<close> and \<open>self.min_delay\<close> of the scraper. \<open>apply_rate_limit\<close> reads the
  clock once on entry (\<open>now\<close>), sleeps for the remainder of the minimum delay when the
  recorded time of the host is too recent, and then records \<open>now\<close>, the time read on
  entry. The result is the time slept in seconds together with the state after the call;
  \<open>request_time\<close> is the earliest moment, in seconds, at which the caller can issue its
  request: the time of entry plus the time slept.
\<close>

record rate_limiter =
  last_requests :: "string \<rightharpoonup> datetime"
  min_delay :: rat

definition total_seconds :: "datetime \<Rightarrow> datetime \<Rightarrow> rat" where
  "total_seconds a b = (of_nat a - of_nat b) / 1000000"

definition apply_rate_limit :: "datetime \<Rightarrow> string \<Rightarrow> rate_limiter \<Rightarrow> rat \<times> rate_limiter" where
  "apply_rate_limit now domain s =
     (let slept =
            (case last_requests s domain of
               None \<Rightarrow> 0
             | Some last_request \<Rightarrow>
                 (let time_since_last = total_seconds now last_request
                  in if time_since_last < min_delay s then min_delay s - time_since_last else 0))
      in (slept, s\<lparr>last_requests := (last_requests s)(domain \<mapsto> now)\<rparr>))"

definition request_time :: "datetime \<Rightarrow> string \<Rightarrow> rate_limiter \<Rightarrow> rat" where
  "request_time now domain s = of_nat now / 1000000 + fst (apply_rate_limit now domain s)"

definition limiter_0 :: rate_limiter where
  "limiter_0 = \<lparr>last_requests = Map.empty, min_delay = 2\<rparr>"

definition limiter_1 :: rate_limiter where
  "limiter_1 = snd (apply_rate_limit 0 ''www.vinted.fr'' limiter_0)"

definition limiter_2 :: rate_limiter where
  "limiter_2 = snd (apply_rate_limit 500000 ''www.vinted.fr'' limiter_1)"


section \<open>Checkpoints (database.py, bot.py)\<close>

text \<open>
  The table \<open>search_urls\<close> with the columns the scheduler reads. A row is never deleted:
  \<open>remove_search_url\<close> clears \<open>is_active\<close>. The column \<open>last_check\<close> is written in two
  places only, both with \<open>CURRENT_TIMESTAMP\<close>, the wall clock of the database at that
  statement: the default of the \<open>INSERT\<close> in \<open>add_search_url\<close> and the \<open>UPDATE\<close> in
  \<open>update_search_last_check\<close>. Every operation that reads the clock takes its reading
  \<open>now\<close> as an argument; nothing orders one reading against another or against a stored
  value. Each writer catches its own exceptions; \<open>committed\<close> tells whether the update
  was committed or failed and was logged.
\<close>

record search_row =
  search_id :: nat
  channel_id :: nat
  search_url :: string
  domain :: string
  location :: string
  last_check :: datetime
  is_active :: bool

record store =
  search_urls :: "search_row list"

definition add_search_url ::
  "datetime \<Rightarrow> nat \<Rightarrow> string \<Rightarrow> string \<Rightarrow> string \<Rightarrow> store \<Rightarrow> store" where
  "add_search_url now cid u dmn loc db =
     db\<lparr>search_urls := search_urls db @
          [\<lparr>search_id = Suc (fold max (map search_id (search_urls db)) 0), channel_id = cid,
            search_url = u, domain = dmn, location = loc, last_check = now,
            is_active = True\<rparr>]\<rparr>"

definition remove_search_url :: "nat \<Rightarrow> nat \<Rightarrow> store \<Rightarrow> store" where
  "remove_search_url sid cid db =
     db\<lparr>search_urls :=
          map (\<lambda>r. if search_id r = sid \<and> channel_id r = cid then r\<lparr>is_active := False\<rparr> else r)
            (search_urls db)\<rparr>"

definition get_all_active_searches :: "store \<Rightarrow> search_row list" where
  "get_all_active_searches db = sort_key last_check (filter is_active (search_urls db))"

definition update_search_last_check :: "bool \<Rightarrow> datetime \<Rightarrow> nat \<Rightarrow> store \<Rightarrow> store" where
  "update_search_last_check committed now sid db =
     (if committed
      then db\<lparr>search_urls :=
              map (\<lambda>r. if search_id r = sid then r\<lparr>last_check := now\<rparr> else r)
                (search_urls db)\<rparr>
      else db)"

text \<open>
  One iteration of the loop of \<open>monitor_vinted\<close>: the channel is gone (\<open>continue\<close>), the body
  raises and the exception is logged (\<open>continue\<close>), or the body reaches
  \<open>update_search_last_check\<close>. \<open>get_new_listings\<close> and \<open>apply_filters\<close> catch their own
  errors, so a failed scan is a completed iteration with no listings. The environment
  answers, for the search with a given id, with the reading of the clock at the write and
  with the outcome.
\<close>

datatype search_outcome = ChannelGone | Raised | Completed bool

definition process_search :: "datetime \<times> search_outcome \<Rightarrow> search_row \<Rightarrow> store \<Rightarrow> store" where
  "process_search answer search db =
     (case snd answer of
        ChannelGone \<Rightarrow> db
      | Raised \<Rightarrow> db
      | Completed committed \<Rightarrow>
          update_search_last_check committed (fst answer) (search_id search) db)"

definition monitor_vinted :: "(nat \<Rightarrow> datetime \<times> search_outcome) \<Rightarrow> store \<Rightarrow> store" where
  "monitor_vinted env db =
     fold (\<lambda>search. process_search (env (search_id search)) search) (get_all_active_searches db) db"

text \<open>The operations on the store, in the order in which they happen.\<close>

datatype event =
    Tick "nat \<Rightarrow> datetime \<times> search_outcome"
  | AddSearch datetime nat string string string
  | RemoveSearch nat nat

fun step :: "event \<Rightarrow> store \<Rightarrow> store" where
  "step (Tick env) db = monitor_vinted env db"
| "step (AddSearch now cid u dmn loc) db = add_search_url now cid u dmn loc db"
| "step (RemoveSearch sid cid) db = remove_search_url sid cid db"










section \<open>Listings and the attribute filter (bot.py)\<close>

subsection \<open>Values\<close>

text \<open>
  A decoded JSON value. An object is the list of its keys and values, each key once, as
  the dictionary that \<open>json.loads\<close> returns.
\<close>

datatype json =
    JNull
  | JBool bool
  | JNumber rat
  | JString string
  | JArray "json list"
  | JObject "(string \<times> json) list"

text \<open>
  A Python \<open>float\<close>: a finite value, an infinity or NaN. \<open>float_lt a b\<close> is \<open>a < b\<close>; every
  comparison with NaN is false.
\<close>

datatype pyfloat = Finite rat | PosInf | NegInf | NaN

fun float_lt :: "pyfloat \<Rightarrow> pyfloat \<Rightarrow> bool" where
  "float_lt (Finite a) (Finite b) = (a < b)"
| "float_lt (Finite a) PosInf = True"
| "float_lt NegInf (Finite b) = True"
| "float_lt NegInf PosInf = True"
| "float_lt _ _ = False"

text \<open>
  A \<open>datetime\<close> object is naive or timezone-aware. A naive one is its count of
  microseconds since \<open>datetime.min\<close>, an aware one the count of its instant. Two naive
  values compare by their counts and so do two aware ones; comparing a naive with an
  aware one raises \<open>TypeError\<close> (\<open>None\<close>).
\<close>

datatype pydatetime = Naive datetime | Aware datetime

fun datetime_gt :: "pydatetime \<Rightarrow> pydatetime \<Rightarrow> bool option" where
  "datetime_gt (Naive a) (Naive b) = Some (a > b)"
| "datetime_gt (Aware a) (Aware b) = Some (a > b)"
| "datetime_gt _ _ = None"

subsection \<open>Listings\<close>

text \<open>
  A listing is a dictionary. The keys that the code reads with \<open>.get(key, default)\<close> are
  optional here, \<open>None\<close> for an absent key; the others are set by both parse paths. The
  brand and the size of the primary path are whatever value the item holds
  (\<open>item.get('brand_title', '')\<close>), text or not.
\<close>

record listing =
  listing_id :: string
  title :: string
  price :: "pyfloat option"
  currency :: string
  brand :: "json option"
  listing_size :: "json option"
  condition :: "json option"
  seller :: string
  listing_url :: string
  published_at :: "pydatetime option"
  images :: "string list"
  listing_location :: string

text \<open>A row of the table \<open>filters\<close> as \<open>get_channel_filters\<close> returns it.\<close>

record channel_filter =
  filter_type :: string
  filter_value :: string

text \<open>
  \<open>listing.get('price', 0)\<close>, and \<open>listing.get(key, '').lower()\<close> under the function
  \<open>str_lower\<close> that stands for \<open>str.lower\<close>: \<open>None\<close> when the value is not a string and
  the call raises \<open>AttributeError\<close>.
\<close>

definition get_price :: "listing \<Rightarrow> pyfloat" where
  "get_price l = (case price l of None \<Rightarrow> Finite 0 | Some p \<Rightarrow> p)"

fun get_lower :: "(string \<Rightarrow> string) \<Rightarrow> json option \<Rightarrow> string option" where
  "get_lower str_lower None = Some (str_lower [])"
| "get_lower str_lower (Some (JString s)) = Some (str_lower s)"
| "get_lower str_lower (Some _) = None"

subsection \<open>The filter\<close>

text \<open>
  The body of the inner loop of \<open>apply_filters\<close> for one filter: \<open>Some True\<close> when the
  listing passes, \<open>Some False\<close> when the filter excludes it (\<open>should_include = False; break\<close>),
  \<open>None\<close> when the evaluation raises. \<open>to_float\<close> is Python's \<open>float\<close> on a string, \<open>None\<close>
  for a \<open>ValueError\<close>; \<open>a in b\<close> on strings is \<open>sublist a b\<close>.
\<close>

definition check_filter ::
  "(string \<Rightarrow> pyfloat option) \<Rightarrow> (string \<Rightarrow> string) \<Rightarrow> listing \<Rightarrow> channel_filter \<Rightarrow> bool option" where
  "check_filter to_float str_lower l filter_item =
     (if filter_type filter_item = ''price_min''
      then (case to_float (filter_value filter_item) of
              None \<Rightarrow> None
            | Some v \<Rightarrow> Some (\<not> float_lt (get_price l) v))
      else if filter_type filter_item = ''price_max''
      then (case to_float (filter_value filter_item) of
              None \<Rightarrow> None
            | Some v \<Rightarrow> Some (\<not> float_lt v (get_price l)))
      else if filter_type filter_item = ''brand''
      then (case get_lower str_lower (brand l) of
              None \<Rightarrow> None
            | Some b \<Rightarrow> Some (sublist (str_lower (filter_value filter_item)) b))
      else if filter_type filter_item = ''size''
      then (case get_lower str_lower (listing_size l) of
              None \<Rightarrow> None
            | Some s \<Rightarrow> Some (str_lower (filter_value filter_item) = s))
      else if filter_type filter_item = ''condition''
      then (case get_lower str_lower (condition l) of
              None \<Rightarrow> None
            | Some c \<Rightarrow> Some (sublist (str_lower (filter_value filter_item)) c))
      else Some True)"

fun should_include ::
  "(string \<Rightarrow> pyfloat option) \<Rightarrow> (string \<Rightarrow> string) \<Rightarrow> listing \<Rightarrow> channel_filter list \<Rightarrow> bool option" where
  "should_include to_float str_lower l [] = Some True"
| "should_include to_float str_lower l (filter_item # filters) =
     (case check_filter to_float str_lower l filter_item of
        None \<Rightarrow> None
      | Some False \<Rightarrow> Some False
      | Some True \<Rightarrow> should_include to_float str_lower l filters)"

text \<open>
  The outer loop; \<open>None\<close> when the evaluation of a listing raises. \<open>apply_filters\<close> returns
  the input for an empty filter list and in its \<open>except\<close> branch.
\<close>

fun filter_loop ::
  "(string \<Rightarrow> pyfloat option) \<Rightarrow> (string \<Rightarrow> string) \<Rightarrow> channel_filter list \<Rightarrow> listing list
     \<Rightarrow> listing list option" where
  "filter_loop to_float str_lower filters [] = Some []"
| "filter_loop to_float str_lower filters (l # listings) =
     (case should_include to_float str_lower l filters of
        None \<Rightarrow> None
      | Some keep \<Rightarrow>
          (case filter_loop to_float str_lower filters listings of
             None \<Rightarrow> None
           | Some filtered_listings \<Rightarrow> Some (if keep then l # filtered_listings else filtered_listings)))"

definition apply_filters ::
  "(string \<Rightarrow> pyfloat option) \<Rightarrow> (string \<Rightarrow> string) \<Rightarrow> channel_filter list \<Rightarrow> listing list
     \<Rightarrow> listing list" where
  "apply_filters to_float str_lower filters listings =
     (if filters = [] then listings
      else (case filter_loop to_float str_lower filters listings of
              None \<Rightarrow> listings
            | Some filtered_listings \<Rightarrow> filtered_listings))"

text \<open>
  A listing satisfies a filter, in the words of the specification: the price is not below
  a \<open>price_min\<close> and not above a \<open>price_max\<close>, the lowered filter value is a substring of
  the lowered brand or condition, it equals the lowered size, and a filter of unknown
  kind is satisfied by every listing. A price value that is no number and a brand, size
  or condition that is no text satisfy nothing.
\<close>

definition satisfies ::
  "(string \<Rightarrow> pyfloat option) \<Rightarrow> (string \<Rightarrow> string) \<Rightarrow> listing \<Rightarrow> channel_filter \<Rightarrow> bool" where
  "satisfies to_float str_lower l f =
     (if filter_type f = ''price_min''
      then (case to_float (filter_value f) of
              None \<Rightarrow> False
            | Some v \<Rightarrow> \<not> float_lt (get_price l) v)
      else if filter_type f = ''price_max''
      then (case to_float (filter_value f) of
              None \<Rightarrow> False
            | Some v \<Rightarrow> \<not> float_lt v (get_price l))
      else if filter_type f = ''brand''
      then (case get_lower str_lower (brand l) of
              None \<Rightarrow> False
            | Some b \<Rightarrow> (\<exists>pre post. b = pre @ str_lower (filter_value f) @ post))
      else if filter_type f = ''size''
      then (case get_lower str_lower (listing_size l) of
              None \<Rightarrow> False
            | Some s \<Rightarrow> s = str_lower (filter_value f))
      else if filter_type f = ''condition''
      then (case get_lower str_lower (condition l) of
              None \<Rightarrow> False
            | Some c \<Rightarrow> (\<exists>pre post. c = pre @ str_lower (filter_value f) @ post))
      else True)"

text \<open>
  Sample data: \<open>float\<close> on the strings \<open>50\<close>, \<open>20\<close>, \<open>12.5\<close> and \<open>nan\<close> (it raises on
  \<open>abc\<close>), \<open>str.lower\<close> on ASCII text, a listing with a given price and brand, and four
  filters.
\<close>

definition sample_float :: "string \<Rightarrow> pyfloat option" where
  "sample_float = map_of [(''50'', Finite 50), (''20'', Finite 20), (''12.5'', Finite (25 / 2)),
                          (''nan'', NaN)]"

definition ascii_lower :: "string \<Rightarrow> string" where
  "ascii_lower s =
     map (\<lambda>c. case map_of (zip ''ABCDEFGHIJKLMNOPQRSTUVWXYZ'' ''abcdefghijklmnopqrstuvwxyz'') c of
                 None \<Rightarrow> c
               | Some d \<Rightarrow> d) s"

definition sample_listing :: "rat \<Rightarrow> json \<Rightarrow> listing" where
  "sample_listing p b =
     \<lparr>listing_id = ''1001'', title = ''Trainers'', price = Some (Finite p), currency = ''EUR'',
      brand = Some b, listing_size = Some (JString ''42''),
      condition = Some (JString ''Very Good''), seller = ''anna'',
      listing_url = ''https://www.vinted.fr/items/1001'', published_at = Some (Naive 1000),
      images = [], listing_location = ''fr''\<rparr>"

definition price_max_50 :: channel_filter where
  "price_max_50 = \<lparr>filter_type = ''price_max'', filter_value = ''50''\<rparr>"

definition price_max_abc :: channel_filter where
  "price_max_abc = \<lparr>filter_type = ''price_max'', filter_value = ''abc''\<rparr>"

definition price_max_nan :: channel_filter where
  "price_max_nan = \<lparr>filter_type = ''price_max'', filter_value = ''nan''\<rparr>"

definition brand_nike :: channel_filter where
  "brand_nike = \<lparr>filter_type = ''brand'', filter_value = ''nike''\<rparr>"


section \<open>Fetch and parse (vinted\_scraper.py)\<close>

text \<open>
  The fallback path reads a document element through the helpers \<open>extract_id_from_html\<close>,
  \<open>extract_text\<close>, \<open>extract_price_from_html\<close>, \<open>extract_url_from_html\<close> and
  \<open>extract_images_from_html\<close>. A container is what they return on one element, or the
  fact that one of them raised, which the loop's \<open>try\<close> catches. A page is what
  \<open>soup.find_all\<close> returns on it: the \<open>string\<close> of each script tag (\<open>None\<close> for a tag
  without one) and the candidate elements, both in document order.
\<close>

record container =
  html_id :: string
  html_title :: string
  html_price :: rat
  html_brand :: string
  html_size :: string
  html_condition :: string
  html_seller :: string
  html_url :: string
  html_images :: "string list"

datatype extraction = Extracted container | ExtractionRaised

record soup =
  script_tags :: "string option list"
  item_containers :: "extraction list"

text \<open>
  What the parse takes from outside: the match of the pattern
  \<open>window\.App\s*=\s*({.*?});\<close> in a script (its group 1), \<open>json.loads\<close> on that group
  (\<open>None\<close> for \<open>JSONDecodeError\<close>; the group starts with a brace, so a decoded value is an
  object), \<open>parse_item_data\<close> for the request's url (\<open>None\<close> when it catches an exception),
  and the clock: \<open>utcnow i\<close> is what \<open>datetime.utcnow()\<close> returns while container \<open>i\<close> is
  processed.
\<close>

record parser_env =
  re_search :: "string \<Rightarrow> string option"
  json_loads :: "string \<Rightarrow> (string \<times> json) list option"
  parse_item_data :: "json \<Rightarrow> listing option"
  utcnow :: "nat \<Rightarrow> datetime"

text \<open>The locale from the host of the request's url (\<open>extract_domain(search_url)\<close>).\<close>

definition extract_location_from_url :: "string \<Rightarrow> string" where
  "extract_location_from_url netloc =
     (if sublist ''.de'' netloc then ''de''
      else if sublist ''.fr'' netloc then ''fr''
      else if sublist ''.es'' netloc then ''es''
      else if sublist ''.it'' netloc then ''it''
      else if sublist ''.be'' netloc then ''be''
      else if sublist ''.nl'' netloc then ''nl''
      else ''com'')"

text \<open>
  \<open>parse_html_listings\<close>: the first 20 containers; a listing is kept when its id and its
  title are not empty; its \<open>published_at\<close> is the clock's reading.
\<close>

definition html_listing :: "string \<Rightarrow> datetime \<Rightarrow> container \<Rightarrow> listing" where
  "html_listing netloc now c =
     \<lparr>listing_id = html_id c, title = html_title c, price = Some (Finite (html_price c)),
      currency = ''EUR'', brand = Some (JString (html_brand c)),
      listing_size = Some (JString (html_size c)),
      condition = Some (JString (html_condition c)), seller = html_seller c, listing_url = html_url c,
      published_at = Some (Naive now), images = html_images c,
      listing_location = extract_location_from_url netloc\<rparr>"

fun parse_html_containers :: "(nat \<Rightarrow> datetime) \<Rightarrow> string \<Rightarrow> nat \<Rightarrow> extraction list \<Rightarrow> listing list" where
  "parse_html_containers clk netloc i [] = []"
| "parse_html_containers clk netloc i (ExtractionRaised # cs) =
     parse_html_containers clk netloc (Suc i) cs"
| "parse_html_containers clk netloc i (Extracted c # cs) =
     (let l = html_listing netloc (clk i) c
      in if listing_id l \<noteq> [] \<and> title l \<noteq> []
         then l # parse_html_containers clk netloc (Suc i) cs
         else parse_html_containers clk netloc (Suc i) cs)"

definition parse_html_listings :: "parser_env \<Rightarrow> string \<Rightarrow> soup \<Rightarrow> listing list" where
  "parse_html_listings env netloc sp =
     parse_html_containers (utcnow env) netloc 0 (take 20 (item_containers sp))"

text \<open>
  The loop over the script tags of \<open>parse_vinted_listings\<close>: the first script that holds
  the marker, matches the pattern and decodes gives \<open>vinted_data\<close>; a script that does
  not match or does not decode is passed over.
\<close>

fun find_vinted_data :: "parser_env \<Rightarrow> string option list \<Rightarrow> (string \<times> json) list option" where
  "find_vinted_data env [] = None"
| "find_vinted_data env (None # scripts) = find_vinted_data env scripts"
| "find_vinted_data env (Some s # scripts) =
     (if s \<noteq> [] \<and> sublist ''window.App'' s
      then (case re_search env s of
              None \<Rightarrow> find_vinted_data env scripts
            | Some group1 \<Rightarrow>
                (case json_loads env group1 of
                   None \<Rightarrow> find_vinted_data env scripts
                 | Some vinted_data \<Rightarrow> Some vinted_data))
      else find_vinted_data env scripts)"

text \<open>
  The primary path. \<open>None\<close> stands for an exception that the outer \<open>except\<close> turns into
  the empty list: \<open>.get\<close> on a catalog that is not an object, or a loop over \<open>items\<close>
  that cannot be iterated. A loop over an object runs over its keys, one over a string
  over its characters.
\<close>

definition dict_get :: "(string \<times> json) list \<Rightarrow> string \<Rightarrow> json \<Rightarrow> json" where
  "dict_get d k dflt = (case map_of d k of None \<Rightarrow> dflt | Some v \<Rightarrow> v)"

fun iterate :: "json \<Rightarrow> json list option" where
  "iterate (JArray xs) = Some xs"
| "iterate (JObject kvs) = Some (map (\<lambda>kv. JString (fst kv)) kvs)"
| "iterate (JString s) = Some (map (\<lambda>c. JString [c]) s)"
| "iterate _ = None"

definition parse_catalog :: "parser_env \<Rightarrow> (string \<times> json) list \<Rightarrow> listing list option" where
  "parse_catalog env vinted_data =
     (case dict_get vinted_data ''catalog'' (JObject []) of
        JObject catalog_data \<Rightarrow>
          (case iterate (dict_get catalog_data ''items'' (JArray [])) of
             None \<Rightarrow> None
           | Some items \<Rightarrow> Some (List.map_filter (parse_item_data env) items))
      | _ \<Rightarrow> None)"

text \<open>
  The test \<open>if vinted_data and 'catalog' in vinted_data\<close> and the two branches.
\<close>

datatype parse_path = PrimaryPath "(string \<times> json) list" | FallbackPath

definition choose_path :: "parser_env \<Rightarrow> soup \<Rightarrow> parse_path" where
  "choose_path env sp =
     (case find_vinted_data env (script_tags sp) of
        None \<Rightarrow> FallbackPath
      | Some vinted_data \<Rightarrow>
          if vinted_data \<noteq> [] \<and> map_of vinted_data ''catalog'' \<noteq> None
          then PrimaryPath vinted_data else FallbackPath)"

definition parse_vinted_listings :: "parser_env \<Rightarrow> string \<Rightarrow> soup \<Rightarrow> listing list" where
  "parse_vinted_listings env netloc sp =
     (case choose_path env sp of
        PrimaryPath vinted_data \<Rightarrow>
          (case parse_catalog env vinted_data of None \<Rightarrow> [] | Some listings \<Rightarrow> listings)
      | FallbackPath \<Rightarrow> parse_html_listings env netloc sp)"

text \<open>
  The argument \<open>last_check\<close> of \<open>get_new_listings\<close>. The signature declares an
  \<open>Optional[datetime]\<close>; \<open>monitor_vinted\<close> passes \<open>search.get('last_check')\<close>, the column as
  SQLite returns it: a string \<open>YYYY-MM-DD HH:MM:SS\<close>. The test \<open>if last_check:\<close> is false
  for \<open>None\<close> and for the empty string. \<open>published_at > last_check\<close> raises \<open>TypeError\<close>
  (\<open>None\<close>) against a string, and against a datetime of the other kind.
\<close>

datatype last_check_arg = NoCheckpoint | DatetimeCheckpoint pydatetime | TextCheckpoint string

fun truthy_last_check :: "last_check_arg \<Rightarrow> bool" where
  "truthy_last_check NoCheckpoint = False"
| "truthy_last_check (DatetimeCheckpoint d) = True"
| "truthy_last_check (TextCheckpoint s) = (s \<noteq> [])"

fun newer_than :: "pydatetime \<Rightarrow> last_check_arg \<Rightarrow> bool option" where
  "newer_than p (DatetimeCheckpoint d) = datetime_gt p d"
| "newer_than p _ = None"

text \<open>
  The comprehension \<open>[listing for listing in listings if
  listing.get('published_at', datetime.min) > last_check]\<close>; \<open>None\<close> when a comparison
  raises.
\<close>

fun filter_newer :: "last_check_arg \<Rightarrow> listing list \<Rightarrow> listing list option" where
  "filter_newer since [] = Some []"
| "filter_newer since (listing # listings) =
     (case newer_than (case published_at listing of None \<Rightarrow> Naive datetime_min | Some p \<Rightarrow> p)
             since of
        None \<Rightarrow> None
      | Some keep \<Rightarrow>
          (case filter_newer since listings of
             None \<Rightarrow> None
           | Some rest \<Rightarrow> Some (if keep then listing # rest else rest)))"

text \<open>
  \<open>get_new_listings\<close>. The request either raises (as does anything before it) or answers
  with a status and a body; every exception, the one of a comparison too, ends in the
  \<open>except\<close> that returns the empty list.
\<close>

datatype fetch = FetchRaised | Response nat soup

definition get_new_listings ::
  "parser_env \<Rightarrow> string \<Rightarrow> fetch \<Rightarrow> last_check_arg \<Rightarrow> listing list" where
  "get_new_listings env netloc fetched since =
     (case fetched of
        FetchRaised \<Rightarrow> []
      | Response status sp \<Rightarrow>
          if status \<noteq> 200 then []
          else (let listings = parse_vinted_listings env netloc sp
                in if truthy_last_check since
                   then (case filter_newer since listings of
                           None \<Rightarrow> []
                         | Some newer \<Rightarrow> newer)
                   else listings))"

text \<open>What one script contributes: its decoded payload, if it has one.\<close>

definition payload :: "parser_env \<Rightarrow> string \<Rightarrow> (string \<times> json) list option" where
  "payload env s =
     (if s \<noteq> [] \<and> sublist ''window.App'' s
      then (case re_search env s of None \<Rightarrow> None | Some group1 \<Rightarrow> json_loads env group1)
      else None)"

text \<open>
  Sample pages for \<open>https://www.vinted.fr/catalog?...\<close>: one whose script holds an object
  without the key \<open>catalog\<close>, one whose script holds a catalog of two items with epoch
  timestamps (\<open>parse_datetime\<close> makes naive datetimes of them), and one whose catalog holds
  an item with the ISO timestamp \<open>2023-11-14T22:13:21Z\<close> (\<open>parse_datetime\<close> makes a
  timezone-aware datetime of it); each with one candidate element in the markup.
\<close>

definition quoted :: "string \<Rightarrow> string" where
  "quoted s = CHR 0x22 # s @ [CHR 0x22]"

definition user_payload :: string where
  "user_payload = ''{'' @ quoted ''user'' @ '': 7}''"

definition user_script :: string where
  "user_script = ''window.App = '' @ user_payload @ '';''"

definition catalog_payload :: string where
  "catalog_payload =
     ''{'' @ quoted ''catalog'' @ '': {'' @ quoted ''items'' @ '': [{'' @ quoted ''id''
       @ '': 1, '' @ quoted ''created_at_ts'' @ '': 1700000000}, {'' @ quoted ''id''
       @ '': 2, '' @ quoted ''created_at_ts'' @ '': 1700000000.000001}]}}''"

definition aware_payload :: string where
  "aware_payload =
     ''{'' @ quoted ''catalog'' @ '': {'' @ quoted ''items'' @ '': [{'' @ quoted ''id''
       @ '': 3, '' @ quoted ''created_at_ts'' @ '': '' @ quoted ''2023-11-14T22:13:21Z'' @ ''}]}}''"

definition aware_script :: string where
  "aware_script = ''window.App = '' @ aware_payload @ '';''"

definition catalog_script :: string where
  "catalog_script = ''window.App = '' @ catalog_payload @ '';''"

definition item_1 :: json where
  "item_1 = JObject [(''id'', JNumber 1), (''created_at_ts'', JNumber 1700000000)]"

definition item_2 :: json where
  "item_2 = JObject [(''id'', JNumber 2), (''created_at_ts'', JNumber (1700000000000001 / 1000000))]"

definition item_3 :: json where
  "item_3 = JObject [(''id'', JNumber 3), (''created_at_ts'', JString ''2023-11-14T22:13:21Z'')]"

definition item_listing :: "string \<Rightarrow> datetime \<Rightarrow> listing" where
  "item_listing i t =
     \<lparr>listing_id = i, title = [], price = Some (Finite 0), currency = ''EUR'',
      brand = Some (JString []), listing_size = Some (JString []),
      condition = Some (JString []), seller = [],
      listing_url = ''https://www.vinted.fr/items/'' @ i, published_at = Some (Naive t),
      images = [],
      listing_location = ''fr''\<rparr>"

definition sample_env :: parser_env where
  "sample_env =
     \<lparr>re_search = map_of
        [(user_script, user_payload), (catalog_script, catalog_payload),
         (aware_script, aware_payload)],
      json_loads = map_of
        [(user_payload, [(''user'', JNumber 7)]),
         (catalog_payload, [(''catalog'', JObject [(''items'', JArray [item_1, item_2])])]),
         (aware_payload, [(''catalog'', JObject [(''items'', JArray [item_3])])])],
      parse_item_data = map_of
        [(item_1, item_listing ''1'' 63835596800000000),
         (item_2, item_listing ''2'' 63835596800000001),
         (item_3, (item_listing ''3'' 0)\<lparr>published_at := Some (Aware 63835596801000000)\<rparr>)],
      utcnow = (\<lambda>i. 63900000000000000 + i)\<rparr>"

definition sample_container :: container where
  "sample_container =
     \<lparr>html_id = ''555'', html_title = ''Jacket'', html_price = 15, html_brand = ''Zara'',
      html_size = ''M'', html_condition = ''Good'', html_seller = ''bob'',
      html_url = ''https://www.vinted.fr/items/555'', html_images = []\<rparr>"

definition user_page :: soup where
  "user_page = \<lparr>script_tags = [None, Some user_script], item_containers = [Extracted sample_container]\<rparr>"

definition catalog_page :: soup where
  "catalog_page = \<lparr>script_tags = [Some catalog_script], item_containers = [Extracted sample_container]\<rparr>"

definition aware_page :: soup where
  "aware_page = \<lparr>script_tags = [Some aware_script], item_containers = [Extracted sample_container]\<rparr>"

text \<open>The checkpoint 2023-11-14 22:13:20, as a datetime and as the database returns it.\<close>

definition checkpoint_datetime :: last_check_arg where
  "checkpoint_datetime = DatetimeCheckpoint (Naive 63835596800000000)"

definition checkpoint_text :: last_check_arg where
  "checkpoint_text = TextCheckpoint ''2023-11-14 22:13:20''"


section \<open>Results\<close>

subsection \<open>C7: adding a proxy\<close>

lemma is_valid_proxy_url_iff:
  "is_valid_proxy_url u \<longleftrightarrow>
     prefix ''http://'' u \<or> prefix ''https://'' u \<or> prefix ''socks4://'' u \<or> prefix ''socks5://'' u"
  by (simp add: is_valid_proxy_url_def valid_prefixes_def)

text \<open>
  C7, as stated, fails: a second \<open>add_proxy\<close> with a url already in the pool is not a
  no-op. The pool of one entry has two entries afterwards.
\<close>

theorem add_proxy_duplicate_counterexample:
  "fst (add_proxy ''http://10.0.0.1:8080'' ''http'' pool_one) = True
   \<and> length (proxies pool_one) = 1
   \<and> length (proxies (snd (add_proxy ''http://10.0.0.1:8080'' ''http'' pool_one))) = 2
   \<and> proxies (snd (add_proxy ''http://10.0.0.1:8080'' ''http'' pool_one)) \<noteq> proxies pool_one"
  by (simp add: pool_one_def add_proxy_def is_valid_proxy_url_iff empty_manager_def)

text \<open>
  C7, amended: \<open>add_proxy\<close> accepts a url exactly when it starts with \<open>http://\<close>,
  \<open>https://\<close>, \<open>socks4://\<close> or \<open>socks5://\<close>; a rejected url returns \<open>False\<close> and leaves
  the pool as it was; an accepted url, whether or not it is already in the pool, appends
  one fresh entry (zero counters, healthy, no response time) to the entry list and makes
  the health table point to it.
\<close>

theorem add_proxy_accepts_by_prefix:
  "fst (add_proxy u t m) =
     (prefix ''http://'' u \<or> prefix ''https://'' u \<or> prefix ''socks4://'' u \<or> prefix ''socks5://'' u)
   \<and> (\<not> fst (add_proxy u t m) \<longrightarrow> snd (add_proxy u t m) = m)
   \<and> (fst (add_proxy u t m) \<longrightarrow>
        proxies (snd (add_proxy u t m)) = proxies m @ [new_proxy_info u t]
        \<and> proxy_health (snd (add_proxy u t m)) u = Some (length (proxies m))
        \<and> (\<forall>v. v \<noteq> u \<longrightarrow> proxy_health (snd (add_proxy u t m)) v = proxy_health m v))"
  by (simp add: add_proxy_def is_valid_proxy_url_iff)

theorem add_proxy_accepts_by_prefix_witness:
  "fst (add_proxy ''socks5://10.0.0.2:1080'' ''socks5'' pool_one)
   \<and> proxies (snd (add_proxy ''socks5://10.0.0.2:1080'' ''socks5'' pool_one))
       = proxies pool_one @ [new_proxy_info ''socks5://10.0.0.2:1080'' ''socks5'']
   \<and> \<not> fst (add_proxy ''ftp://10.0.0.3'' ''http'' pool_one)
   \<and> snd (add_proxy ''ftp://10.0.0.3'' ''http'' pool_one) = pool_one"
  using add_proxy_accepts_by_prefix [of "''socks5://10.0.0.2:1080''" "''socks5''" pool_one]
    add_proxy_accepts_by_prefix [of "''ftp://10.0.0.3''" "''http''" pool_one]
  by simp

subsection \<open>C6: reporting a result\<close>

lemma pool_one_eq:
  "pool_one = \<lparr>proxies = [new_proxy_info ''http://10.0.0.1:8080'' ''http''],
               proxy_health = [''http://10.0.0.1:8080'' \<mapsto> 0]\<rparr>"
  by (simp add: pool_one_def add_proxy_def is_valid_proxy_url_iff empty_manager_def)

text \<open>
  C6, as stated, fails for a sample of \<open>0.0\<close> seconds: the stored response time is 2,
  a successful result with sample 0 is reported, and the stored value stays 2 where the
  claim's average \<open>(old + new) / 2\<close> is 1.
\<close>

theorem report_zero_sample_counterexample:
  "map_option response_time (tracked_entry pool_measured ''http://10.0.0.1:8080'') = Some (Some 2)
   \<and> map_option response_time
        (tracked_entry (report_proxy_result 5 ''http://10.0.0.1:8080'' True (Some 0) pool_measured)
           ''http://10.0.0.1:8080'') = Some (Some 2)
   \<and> Some (Some ((2 + 0) / 2)) \<noteq> Some (Some (2::rat))"
  by (simp add: pool_measured_def pool_one_eq report_proxy_result_def tracked_entry_def
      report_update_def new_proxy_info_def)

text \<open>
  C6, amended: for every tracked url, a reported success increments the success counter
  and marks the entry healthy; with a non-zero sample the stored response time becomes
  \<open>(old + new) / 2\<close> when a non-zero old value is stored and the new sample otherwise;
  with no sample or a sample of zero the stored response time is kept. A reported failure
  increments the failure counter and marks the entry unhealthy exactly when the new
  failure count exceeds the success count by more than 3; otherwise the flag is kept.
\<close>

theorem report_proxy_result_updates_entry:
  assumes "tracked_entry m u = Some p"
  shows "\<exists>p'. tracked_entry (report_proxy_result now u ok rt m) u = Some p'
     \<and> url p' = url p
     \<and> (ok \<longrightarrow> success_count p' = success_count p + 1
              \<and> failure_count p' = failure_count p
              \<and> is_healthy p'
              \<and> (\<forall>new. rt = Some new \<and> new \<noteq> 0 \<longrightarrow>
                    response_time p' =
                      (case response_time p of
                         None \<Rightarrow> Some new
                       | Some old \<Rightarrow> if old \<noteq> 0 then Some ((old + new) / 2) else Some new))
              \<and> (rt = None \<or> rt = Some 0 \<longrightarrow> response_time p' = response_time p))
     \<and> (\<not> ok \<longrightarrow> failure_count p' = failure_count p + 1
              \<and> success_count p' = success_count p
              \<and> response_time p' = response_time p
              \<and> is_healthy p' = (is_healthy p \<and> \<not> failure_count p' > success_count p' + 3))"
  using assms
  by (auto simp: tracked_entry_def report_proxy_result_def report_update_def
      split: option.splits if_splits)

theorem report_proxy_result_updates_entry_witness:
  "tracked_entry pool_measured ''http://10.0.0.1:8080'' =
     Some ((new_proxy_info ''http://10.0.0.1:8080'' ''http'')
              \<lparr>success_count := 1, last_success := Some 0, response_time := Some 2\<rparr>)
   \<and> (\<exists>p'. tracked_entry (report_proxy_result 5 ''http://10.0.0.1:8080'' True (Some 4) pool_measured)
              ''http://10.0.0.1:8080'' = Some p'
          \<and> success_count p' = 2 \<and> response_time p' = Some 3 \<and> is_healthy p')
   \<and> (\<exists>p'. tracked_entry (report_proxy_result 5 ''http://10.0.0.1:8080'' False None pool_measured)
              ''http://10.0.0.1:8080'' = Some p'
          \<and> failure_count p' = 1 \<and> success_count p' = 1 \<and> is_healthy p')"
proof -
  have h: "tracked_entry pool_measured ''http://10.0.0.1:8080'' =
     Some ((new_proxy_info ''http://10.0.0.1:8080'' ''http'')
              \<lparr>success_count := 1, last_success := Some 0, response_time := Some 2\<rparr>)"
    by (simp add: pool_measured_def pool_one_eq report_proxy_result_def tracked_entry_def
        report_update_def new_proxy_info_def)
  show ?thesis
    using h report_proxy_result_updates_entry [OF h, of 5 True "Some 4"]
      report_proxy_result_updates_entry [OF h, of 5 False None]
    by (auto simp: new_proxy_info_def)
qed


subsection \<open>C3: selecting a proxy\<close>



lemma bisect_le: "bisect a x hi \<le> hi"
proof -
  have "length (takeWhile (\<lambda>c. of_nat c \<le> x) (take hi a)) \<le> length (take hi a)"
    by (rule length_takeWhile_le)
  also have "\<dots> \<le> hi" by simp
  finally show ?thesis by (simp add: bisect_def)
qed






lemma sorted_proxies_stable:
  "filter (\<lambda>p. score_key p = k) (sorted_proxies ps) = filter (\<lambda>p. score_key p = k) ps"
  using sort_key_stable [of "\<lambda>p. - score_key p" "- k" ps]
  by (simp add: sorted_proxies_def)








subsection \<open>C4: spacing of requests to one host\<close>

text \<open>
  C4 does not hold of the code. Three fetches of the same host enter the limiter at
  0 s, 0.5 s and 2.1 s with a minimum delay of 2 s. The second sleeps 1.5 s and issues
  its request at 2.0 s, but the limiter records 0.5 s for it, the time read before the
  sleep. The third enters after the second request was issued, sleeps 0.4 s and issues
  its request at 2.5 s: half a second after the second request.
\<close>

theorem apply_rate_limit_short_gap:
  "request_time 0 ''www.vinted.fr'' limiter_0 = 0
   \<and> request_time 500000 ''www.vinted.fr'' limiter_1 = 2
   \<and> of_nat 2100000 / 1000000 \<ge> request_time 500000 ''www.vinted.fr'' limiter_1
   \<and> request_time 2100000 ''www.vinted.fr'' limiter_2 = 5 / 2
   \<and> request_time 2100000 ''www.vinted.fr'' limiter_2 - request_time 500000 ''www.vinted.fr'' limiter_1
        < min_delay limiter_2"
  by (simp add: request_time_def apply_rate_limit_def limiter_0_def limiter_1_def limiter_2_def
      total_seconds_def Let_def)

text \<open>
  What the limiter guarantees: a request is issued at least the minimum delay after the
  recorded time of the previous fetch of its host, and the recorded time of another host
  has no effect.
\<close>

lemma apply_rate_limit_from_recorded:
  "last_requests s d = Some t \<Longrightarrow> of_nat t / 1000000 + min_delay s \<le> request_time now d s"
  by (auto simp: request_time_def apply_rate_limit_def total_seconds_def Let_def field_simps)

lemma apply_rate_limit_other_host:
  "d \<noteq> d' \<Longrightarrow>
   fst (apply_rate_limit now d (snd (apply_rate_limit t d' s))) = fst (apply_rate_limit now d s)"
  by (simp add: apply_rate_limit_def Let_def split: option.splits)


subsection \<open>C8: checkpoints and the clock\<close>

















subsection \<open>C2: the attribute filter\<close>

lemma check_filter_Some:
  "check_filter to_float str_lower l f = Some b \<Longrightarrow> b = satisfies to_float str_lower l f"
  by (auto simp: check_filter_def satisfies_def sublist_def split: option.splits if_splits)

lemma check_filter_None:
  "check_filter to_float str_lower l f = None \<Longrightarrow> \<not> satisfies to_float str_lower l f"
  by (auto simp: check_filter_def satisfies_def split: option.splits if_splits)

lemma should_include_Some:
  "should_include to_float str_lower l fs = Some b \<Longrightarrow>
   b = (\<forall>f\<in>set fs. satisfies to_float str_lower l f)"
proof (induction fs)
  case Nil
  then show ?case by simp
next
  case (Cons f fs)
  show ?case
  proof (cases "check_filter to_float str_lower l f")
    case None
    with Cons.prems show ?thesis by simp
  next
    case (Some c)
    then have c: "c = satisfies to_float str_lower l f"
      by (rule check_filter_Some)
    show ?thesis
    proof (cases c)
      case True
      with Some Cons.prems have "should_include to_float str_lower l fs = Some b"
        by simp
      then have "b = (\<forall>f\<in>set fs. satisfies to_float str_lower l f)"
        by (rule Cons.IH)
      with True c show ?thesis by simp
    next
      case False
      with Some Cons.prems have "b = False" by simp
      with False c show ?thesis by simp
    qed
  qed
qed

lemma filter_loop_Some:
  "filter_loop to_float str_lower fs ls = Some kept \<Longrightarrow>
   kept = filter (\<lambda>l. \<forall>f\<in>set fs. satisfies to_float str_lower l f) ls"
proof (induction ls arbitrary: kept)
  case Nil
  then show ?case by simp
next
  case (Cons l ls)
  from Cons.prems obtain keep rest where
    k: "should_include to_float str_lower l fs = Some keep"
    and r: "filter_loop to_float str_lower fs ls = Some rest"
    and kept: "kept = (if keep then l # rest else rest)"
    by (auto split: option.splits)
  from k have "keep = (\<forall>f\<in>set fs. satisfies to_float str_lower l f)"
    by (rule should_include_Some)
  moreover from r have "rest = filter (\<lambda>l. \<forall>f\<in>set fs. satisfies to_float str_lower l f) ls"
    by (rule Cons.IH)
  ultimately show ?case
    using kept by simp
qed

lemma satisfies_unknown:
  "filter_type f \<notin> {''price_min'', ''price_max'', ''brand'', ''size'', ''condition''} \<Longrightarrow>
   satisfies to_float str_lower l f"
  by (simp add: satisfies_def)

lemma check_filter_defined:
  assumes "filter_type f = ''price_min'' \<or> filter_type f = ''price_max'' \<longrightarrow>
             to_float (filter_value f) \<noteq> None"
    and "get_lower str_lower (brand l) \<noteq> None"
    and "get_lower str_lower (listing_size l) \<noteq> None"
    and "get_lower str_lower (condition l) \<noteq> None"
  shows "check_filter to_float str_lower l f \<noteq> None"
  using assms by (auto simp: check_filter_def split: option.splits)

lemma should_include_defined:
  assumes "\<forall>f\<in>set fs. filter_type f = ''price_min'' \<or> filter_type f = ''price_max'' \<longrightarrow>
             to_float (filter_value f) \<noteq> None"
    and "get_lower str_lower (brand l) \<noteq> None"
    and "get_lower str_lower (listing_size l) \<noteq> None"
    and "get_lower str_lower (condition l) \<noteq> None"
  shows "should_include to_float str_lower l fs \<noteq> None"
  using assms(1)
proof (induction fs)
  case Nil
  then show ?case by simp
next
  case (Cons f fs)
  then have "check_filter to_float str_lower l f \<noteq> None"
    using assms(2-4) by (intro check_filter_defined) simp_all
  with Cons show ?case
    by (auto split: option.splits bool.splits)
qed

lemma filter_loop_defined:
  assumes "\<forall>f\<in>set fs. filter_type f = ''price_min'' \<or> filter_type f = ''price_max'' \<longrightarrow>
             to_float (filter_value f) \<noteq> None"
    and "\<forall>l\<in>set ls. get_lower str_lower (brand l) \<noteq> None
            \<and> get_lower str_lower (listing_size l) \<noteq> None
            \<and> get_lower str_lower (condition l) \<noteq> None"
  shows "filter_loop to_float str_lower fs ls \<noteq> None"
  using assms(2)
proof (induction ls)
  case Nil
  then show ?case by simp
next
  case (Cons l ls)
  then have "should_include to_float str_lower l fs \<noteq> None"
    using assms(1) by (intro should_include_defined) simp_all
  with Cons show ?case
    by (auto split: option.splits)
qed

text \<open>
  C2, amended: for every listing list and filter list on which the evaluation raises no
  exception, the attribute filter keeps exactly the listings that satisfy every filter,
  in their order; a filter of unknown kind excludes nothing; for the empty filter list
  the output is the input; and the evaluation raises no exception when every \<open>price_min\<close>
  and \<open>price_max\<close> value parses as a number and the brand, size and condition of every
  listing are text or absent.
\<close>

theorem apply_filters_conjunction:
  assumes "filter_loop to_float str_lower fs ls = Some kept"
  shows "apply_filters to_float str_lower fs ls =
           filter (\<lambda>l. \<forall>f\<in>set fs. satisfies to_float str_lower l f) ls
         \<and> apply_filters to_float str_lower [] ls = ls
         \<and> (\<forall>l f. filter_type f \<notin> {''price_min'', ''price_max'', ''brand'', ''size'', ''condition''}
                \<longrightarrow> satisfies to_float str_lower l f)
         \<and> (\<forall>fs' ls'.
              (\<forall>f\<in>set fs'. filter_type f = ''price_min'' \<or> filter_type f = ''price_max'' \<longrightarrow>
                  to_float (filter_value f) \<noteq> None)
              \<and> (\<forall>l\<in>set ls'. get_lower str_lower (brand l) \<noteq> None
                    \<and> get_lower str_lower (listing_size l) \<noteq> None
                    \<and> get_lower str_lower (condition l) \<noteq> None)
              \<longrightarrow> filter_loop to_float str_lower fs' ls' \<noteq> None)"
proof -
  have "kept = filter (\<lambda>l. \<forall>f\<in>set fs. satisfies to_float str_lower l f) ls"
    using assms by (rule filter_loop_Some)
  with assms have "apply_filters to_float str_lower fs ls =
      filter (\<lambda>l. \<forall>f\<in>set fs. satisfies to_float str_lower l f) ls"
    by (cases "fs = []") (simp_all add: apply_filters_def)
  moreover have "apply_filters to_float str_lower [] ls = ls"
    by (simp add: apply_filters_def)
  ultimately show ?thesis
    using satisfies_unknown filter_loop_defined by blast
qed

lemmas sample_filter_defs =
  apply_filters_def check_filter_def sample_float_def sample_listing_def get_price_def
  ascii_lower_def sublist_code price_max_50_def price_max_abc_def price_max_nan_def brand_nike_def

lemma scenario_filter_loop:
  "filter_loop sample_float ascii_lower [price_max_50, brand_nike]
     [sample_listing 40 (JString ''Nike Air''), sample_listing 60 (JString ''Nike'')] =
   Some [sample_listing 40 (JString ''Nike Air'')]"
  by (simp add: sample_filter_defs)

theorem apply_filters_conjunction_witness:
  "filter_loop sample_float ascii_lower [price_max_50, brand_nike]
     [sample_listing 40 (JString ''Nike Air''), sample_listing 60 (JString ''Nike'')] =
   Some [sample_listing 40 (JString ''Nike Air'')]
   \<and> apply_filters sample_float ascii_lower [price_max_50, brand_nike]
        [sample_listing 40 (JString ''Nike Air''), sample_listing 60 (JString ''Nike'')] =
       [sample_listing 40 (JString ''Nike Air'')]
   \<and> filter (\<lambda>l. \<forall>f\<in>set [price_max_50, brand_nike]. satisfies sample_float ascii_lower l f)
        [sample_listing 40 (JString ''Nike Air''), sample_listing 60 (JString ''Nike'')] =
       [sample_listing 40 (JString ''Nike Air'')]"
proof -
  have "apply_filters sample_float ascii_lower [price_max_50, brand_nike]
        [sample_listing 40 (JString ''Nike Air''), sample_listing 60 (JString ''Nike'')] =
       [sample_listing 40 (JString ''Nike Air'')]"
    by (simp add: sample_filter_defs)
  with apply_filters_conjunction [OF scenario_filter_loop] scenario_filter_loop
  show ?thesis by simp
qed

text \<open>
  C2, as stated, fails where the evaluation raises. With the filters \<open>price_max = abc\<close> and
  \<open>brand = nike\<close>, a listing of brand Adidas is kept although it does not satisfy the brand
  filter. With the filter \<open>brand = nike\<close> alone, a listing whose brand is \<open>null\<close> is kept,
  and so is the Adidas listing next to it. And under \<open>price_max = nan\<close>, which parses, no
  comparison with the value holds: a price of 60 is kept, as is every other price.
\<close>

theorem apply_filters_raising_counterexample:
  "apply_filters sample_float ascii_lower [price_max_abc, brand_nike]
     [sample_listing 40 (JString ''Adidas'')] = [sample_listing 40 (JString ''Adidas'')]
   \<and> \<not> satisfies sample_float ascii_lower (sample_listing 40 (JString ''Adidas'')) brand_nike
   \<and> apply_filters sample_float ascii_lower [brand_nike]
       [sample_listing 40 JNull, sample_listing 40 (JString ''Adidas'')] =
       [sample_listing 40 JNull, sample_listing 40 (JString ''Adidas'')]
   \<and> apply_filters sample_float ascii_lower [price_max_nan]
       [sample_listing 60 (JString ''Nike'')] = [sample_listing 60 (JString ''Nike'')]
   \<and> \<not> float_lt (Finite 60) NaN \<and> \<not> float_lt NaN (Finite 60)"
proof -
  have "\<not> sublist (ascii_lower ''nike'') (ascii_lower ''Adidas'')"
    by (simp add: ascii_lower_def sublist_code)
  then have "\<not> satisfies sample_float ascii_lower (sample_listing 40 (JString ''Adidas'')) brand_nike"
    by (simp add: satisfies_def brand_nike_def sample_listing_def sublist_def)
  moreover have "apply_filters sample_float ascii_lower [price_max_abc, brand_nike]
     [sample_listing 40 (JString ''Adidas'')] = [sample_listing 40 (JString ''Adidas'')]"
    by (simp add: apply_filters_def check_filter_def price_max_abc_def sample_float_def)
  moreover have "apply_filters sample_float ascii_lower [brand_nike]
       [sample_listing 40 JNull, sample_listing 40 (JString ''Adidas'')] =
       [sample_listing 40 JNull, sample_listing 40 (JString ''Adidas'')]"
    by (simp add: apply_filters_def check_filter_def brand_nike_def sample_listing_def)
  moreover have "apply_filters sample_float ascii_lower [price_max_nan]
       [sample_listing 60 (JString ''Nike'')] = [sample_listing 60 (JString ''Nike'')]"
    by (simp add: sample_filter_defs)
  ultimately show ?thesis by simp
qed

subsection \<open>C10: an exception in the attribute filter\<close>

lemma filter_loop_raises:
  "l \<in> set ls \<Longrightarrow> should_include to_float str_lower l fs = None \<Longrightarrow>
   filter_loop to_float str_lower fs ls = None"
  by (induction ls) (auto split: option.splits)

lemma should_include_raises:
  assumes "should_include to_float str_lower l pre = Some True"
    and "check_filter to_float str_lower l f = None"
  shows "should_include to_float str_lower l (pre @ f # post) = None"
  using assms by (induction pre) (auto split: option.splits bool.splits)

text \<open>
  C10: when some listing passes the filters before a \<open>price_min\<close> or \<open>price_max\<close> filter
  whose value does not parse, the evaluation raises and \<open>apply_filters\<close> returns the
  input list unchanged; and whenever the evaluation raises, the result is the input.
\<close>

theorem apply_filters_error_returns_input:
  assumes "l \<in> set ls"
    and "filter_type f = ''price_min'' \<or> filter_type f = ''price_max''"
    and "to_float (filter_value f) = None"
    and "should_include to_float str_lower l pre = Some True"
  shows "filter_loop to_float str_lower (pre @ f # post) ls = None
         \<and> apply_filters to_float str_lower (pre @ f # post) ls = ls
         \<and> (\<forall>fs' ls'. filter_loop to_float str_lower fs' ls' = None \<longrightarrow>
                apply_filters to_float str_lower fs' ls' = ls')"
proof -
  have "check_filter to_float str_lower l f = None"
    using assms(2,3) by (auto simp: check_filter_def)
  with assms(4) have "should_include to_float str_lower l (pre @ f # post) = None"
    by (rule should_include_raises)
  with assms(1) have raised: "filter_loop to_float str_lower (pre @ f # post) ls = None"
    by (rule filter_loop_raises)
  then show ?thesis
    by (simp add: apply_filters_def)
qed

theorem apply_filters_error_returns_input_witness:
  "sample_listing 40 (JString ''Adidas'')
     \<in> set [sample_listing 60 (JString ''Nike''), sample_listing 40 (JString ''Adidas'')]
   \<and> filter_type price_max_abc = ''price_max''
   \<and> sample_float (filter_value price_max_abc) = None
   \<and> should_include sample_float ascii_lower (sample_listing 40 (JString ''Adidas'')) [] = Some True
   \<and> apply_filters sample_float ascii_lower [price_max_abc, brand_nike]
        [sample_listing 60 (JString ''Nike''), sample_listing 40 (JString ''Adidas'')]
       = [sample_listing 60 (JString ''Nike''), sample_listing 40 (JString ''Adidas'')]"
proof -
  have h1: "sample_listing 40 (JString ''Adidas'')
     \<in> set [sample_listing 60 (JString ''Nike''), sample_listing 40 (JString ''Adidas'')]"
    by simp
  have h2: "filter_type price_max_abc = ''price_min'' \<or> filter_type price_max_abc = ''price_max''"
    by (simp add: price_max_abc_def)
  have h3: "sample_float (filter_value price_max_abc) = None"
    by (simp add: price_max_abc_def sample_float_def)
  have h4: "should_include sample_float ascii_lower (sample_listing 40 (JString ''Adidas'')) [] = Some True"
    by simp
  from apply_filters_error_returns_input [OF h1 h2 h3 h4, of "[brand_nike]"]
  show ?thesis
    using h1 h3 h4 by (simp add: price_max_abc_def)
qed


subsection \<open>C5: the primary path and the fallback\<close>

lemma find_vinted_data_payload:
  "find_vinted_data env (Some s # scripts) =
     (case payload env s of None \<Rightarrow> find_vinted_data env scripts | Some d \<Rightarrow> Some d)"
  by (simp add: payload_def split: option.splits)

lemma find_vinted_data_None_iff:
  "find_vinted_data env scripts = None \<longleftrightarrow> (\<forall>s. Some s \<in> set scripts \<longrightarrow> payload env s = None)"
proof (induction scripts)
  case Nil
  then show ?case by simp
next
  case (Cons script scripts)
  show ?case
  proof (cases script)
    case None
    with Cons show ?thesis by simp
  next
    case (Some s)
    with Cons show ?thesis
      by (cases "payload env s") (auto simp: find_vinted_data_payload simp del: find_vinted_data.simps)
  qed
qed

lemma find_vinted_data_Some:
  "find_vinted_data env scripts = Some d \<Longrightarrow> \<exists>s. Some s \<in> set scripts \<and> payload env s = Some d"
proof (induction scripts)
  case Nil
  then show ?case by simp
next
  case (Cons script scripts)
  show ?case
  proof (cases script)
    case None
    with Cons show ?thesis by auto
  next
    case (Some s)
    with Cons show ?thesis
      by (cases "payload env s") (auto simp: find_vinted_data_payload simp del: find_vinted_data.simps)
  qed
qed


lemma choose_path_fallback_iff:
  "choose_path env sp = FallbackPath \<longleftrightarrow>
     find_vinted_data env (script_tags sp) = None
     \<or> (\<exists>d. find_vinted_data env (script_tags sp) = Some d \<and> (d = [] \<or> map_of d ''catalog'' = None))"
  by (cases "find_vinted_data env (script_tags sp)") (simp_all add: choose_path_def)

lemma choose_path_primary:
  assumes "find_vinted_data env (script_tags sp) = Some d" "d \<noteq> []" "map_of d ''catalog'' \<noteq> None"
  shows "choose_path env sp = PrimaryPath d"
  using assms by (simp add: choose_path_def)

lemma choose_path_containers:
  "choose_path env (sp\<lparr>item_containers := cs\<rparr>) = choose_path env sp"
  by (simp add: choose_path_def)

lemma primary_ignores_containers:
  assumes "choose_path env sp = PrimaryPath d"
  shows "parse_vinted_listings env netloc sp =
           (case parse_catalog env d of None \<Rightarrow> [] | Some listings \<Rightarrow> listings)"
    and "parse_vinted_listings env netloc (sp\<lparr>item_containers := cs\<rparr>) =
           parse_vinted_listings env netloc sp"
  using assms by (simp_all add: parse_vinted_listings_def choose_path_containers)

lemma fallback_result:
  "choose_path env sp = FallbackPath \<Longrightarrow>
   parse_vinted_listings env netloc sp = parse_html_listings env netloc sp"
  by (simp add: parse_vinted_listings_def)

text \<open>
  C5, amended: the fallback scan runs exactly when no script holds a marker whose payload
  decodes, or the first decoded payload is an empty object or has no key \<open>catalog\<close>. When
  the first decoded payload is a non-empty object with the key \<open>catalog\<close>, the result is
  read from that catalog alone and does not depend on the markup: the fallback does not
  run.
\<close>

theorem parse_path_by_catalog_key:
  "(choose_path env sp = FallbackPath \<longleftrightarrow>
      find_vinted_data env (script_tags sp) = None
      \<or> (\<exists>d. find_vinted_data env (script_tags sp) = Some d \<and> (d = [] \<or> map_of d ''catalog'' = None)))
   \<and> (find_vinted_data env (script_tags sp) = None \<longleftrightarrow>
        (\<forall>s. Some s \<in> set (script_tags sp) \<longrightarrow> payload env s = None))
   \<and> (\<forall>d. find_vinted_data env (script_tags sp) = Some d \<longrightarrow>
          (\<exists>s. Some s \<in> set (script_tags sp) \<and> payload env s = Some d))
   \<and> (\<forall>d. find_vinted_data env (script_tags sp) = Some d \<and> d \<noteq> [] \<and> map_of d ''catalog'' \<noteq> None \<longrightarrow>
          choose_path env sp = PrimaryPath d
          \<and> parse_vinted_listings env netloc sp =
               (case parse_catalog env d of None \<Rightarrow> [] | Some listings \<Rightarrow> listings)
          \<and> (\<forall>cs. parse_vinted_listings env netloc (sp\<lparr>item_containers := cs\<rparr>) =
                     parse_vinted_listings env netloc sp))
   \<and> (choose_path env sp = FallbackPath \<longrightarrow>
          parse_vinted_listings env netloc sp = parse_html_listings env netloc sp)"
proof (intro conjI allI impI)
  show "choose_path env sp = FallbackPath \<longleftrightarrow>
      find_vinted_data env (script_tags sp) = None
      \<or> (\<exists>d. find_vinted_data env (script_tags sp) = Some d \<and> (d = [] \<or> map_of d ''catalog'' = None))"
    by (rule choose_path_fallback_iff)
  show "find_vinted_data env (script_tags sp) = None \<longleftrightarrow>
        (\<forall>s. Some s \<in> set (script_tags sp) \<longrightarrow> payload env s = None)"
    by (rule find_vinted_data_None_iff)
next
  fix d
  assume "find_vinted_data env (script_tags sp) = Some d"
  then show "\<exists>s. Some s \<in> set (script_tags sp) \<and> payload env s = Some d"
    by (rule find_vinted_data_Some)
next
  fix d
  assume a: "find_vinted_data env (script_tags sp) = Some d \<and> d \<noteq> [] \<and> map_of d ''catalog'' \<noteq> None"
  then show p: "choose_path env sp = PrimaryPath d"
    by (simp add: choose_path_primary)
  from p show "parse_vinted_listings env netloc sp =
               (case parse_catalog env d of None \<Rightarrow> [] | Some listings \<Rightarrow> listings)"
    by (rule primary_ignores_containers(1))
  fix cs
  from p show "parse_vinted_listings env netloc (sp\<lparr>item_containers := cs\<rparr>) =
                     parse_vinted_listings env netloc sp"
    by (rule primary_ignores_containers(2))
next
  assume "choose_path env sp = FallbackPath"
  then show "parse_vinted_listings env netloc sp = parse_html_listings env netloc sp"
    by (rule fallback_result)
qed


lemmas sample_page_defs =
  sample_env_def user_page_def catalog_page_def user_script_def catalog_script_def quoted_def
  user_payload_def catalog_payload_def

lemma user_page_payload:
  "payload sample_env user_script = Some [(''user'', JNumber 7)]"
  by (simp add: payload_def sample_page_defs sublist_code)

lemma user_page_path: "choose_path sample_env user_page = FallbackPath"
  by (simp add: choose_path_def sample_page_defs sublist_code)

lemma user_page_listings:
  "parse_vinted_listings sample_env ''www.vinted.fr'' user_page =
     [html_listing ''www.vinted.fr'' 63900000000000000 sample_container]"
  by (simp add: parse_vinted_listings_def user_page_path)
    (simp add: parse_html_listings_def sample_env_def user_page_def html_listing_def
      sample_container_def)

text \<open>
  C5, as stated, fails: the page holds the marker, its payload decodes (to an object with
  the single key \<open>user\<close>), and yet the listing of the result is the one the fallback scan
  reads from the markup.
\<close>

theorem fallback_despite_payload_counterexample:
  "Some user_script \<in> set (script_tags user_page)
   \<and> sublist ''window.App'' user_script
   \<and> payload sample_env user_script = Some [(''user'', JNumber 7)]
   \<and> choose_path sample_env user_page = FallbackPath
   \<and> parse_vinted_listings sample_env ''www.vinted.fr'' user_page =
        [html_listing ''www.vinted.fr'' 63900000000000000 sample_container]"
proof -
  have "Some user_script \<in> set (script_tags user_page)"
    by (simp add: user_page_def)
  moreover have "sublist ''window.App'' user_script"
    by (simp add: user_script_def sublist_code)
  ultimately show ?thesis
    using user_page_payload user_page_path user_page_listings by simp
qed

lemma catalog_page_data:
  "find_vinted_data sample_env (script_tags catalog_page) =
     Some [(''catalog'', JObject [(''items'', JArray [item_1, item_2])])]"
  by (simp add: sample_page_defs sublist_code)

lemma catalog_page_catalog:
  "parse_catalog sample_env [(''catalog'', JObject [(''items'', JArray [item_1, item_2])])] =
     Some [item_listing ''1'' 63835596800000000, item_listing ''2'' 63835596800000001]"
  by (simp add: parse_catalog_def dict_get_def sample_env_def List.map_filter_simps item_1_def
      item_2_def)

theorem parse_path_by_catalog_key_witness:
  "find_vinted_data sample_env (script_tags catalog_page) =
     Some [(''catalog'', JObject [(''items'', JArray [item_1, item_2])])]
   \<and> choose_path sample_env catalog_page =
       PrimaryPath [(''catalog'', JObject [(''items'', JArray [item_1, item_2])])]
   \<and> parse_vinted_listings sample_env ''www.vinted.fr'' catalog_page =
       [item_listing ''1'' 63835596800000000, item_listing ''2'' 63835596800000001]
   \<and> choose_path sample_env user_page = FallbackPath
   \<and> parse_vinted_listings sample_env ''www.vinted.fr'' user_page =
       parse_html_listings sample_env ''www.vinted.fr'' user_page"
  using parse_path_by_catalog_key [of sample_env catalog_page "''www.vinted.fr''"]
    parse_path_by_catalog_key [of sample_env user_page "''www.vinted.fr''"]
    catalog_page_data catalog_page_catalog user_page_path
  by simp


subsection \<open>C1: the incremental filter\<close>

text \<open>
  Where the checkpoint is a naive datetime and so is every \<open>published_at\<close>, the filter
  keeps exactly the listings published strictly after the checkpoint.
\<close>

lemma filter_newer_naive:
  assumes "\<forall>l\<in>set ls. published_at l = None \<or> (\<exists>n. published_at l = Some (Naive n))"
  shows "filter_newer (DatetimeCheckpoint (Naive T)) ls =
           Some (filter (\<lambda>l. \<exists>n. published_at l = Some (Naive n) \<and> T < n) ls)"
  using assms
proof (induction ls)
  case Nil
  then show ?case by simp
next
  case (Cons l ls)
  then have ih: "filter_newer (DatetimeCheckpoint (Naive T)) ls =
      Some (filter (\<lambda>l. \<exists>n. published_at l = Some (Naive n) \<and> T < n) ls)"
    by simp
  from Cons.prems have "published_at l = None \<or> (\<exists>n. published_at l = Some (Naive n))"
    by simp
  then show ?case
    using ih by (auto simp: datetime_min_def)
qed

lemma get_new_listings_naive:
  assumes "\<forall>l\<in>set (parse_vinted_listings env netloc sp).
             published_at l = None \<or> (\<exists>n. published_at l = Some (Naive n))"
  shows "get_new_listings env netloc (Response 200 sp) (DatetimeCheckpoint (Naive T)) =
           filter (\<lambda>l. \<exists>n. published_at l = Some (Naive n) \<and> T < n)
             (parse_vinted_listings env netloc sp)"
  by (simp add: get_new_listings_def filter_newer_naive [OF assms])

text \<open>
  Against a string every comparison raises, so a scan with a checkpoint as the scheduler
  passes it returns nothing, whatever was parsed; and one listing whose \<open>published_at\<close>
  is of the other kind than the checkpoint empties the result.
\<close>

lemma filter_newer_text:
  "filter_newer (TextCheckpoint s) ls = (if ls = [] then Some [] else None)"
  by (cases ls) simp_all

lemma get_new_listings_text:
  "s \<noteq> [] \<Longrightarrow> get_new_listings env netloc fetched (TextCheckpoint s) = []"
  by (cases fetched) (simp_all add: get_new_listings_def filter_newer_text)

lemma filter_newer_mixed:
  assumes "l \<in> set ls" and "published_at l = Some (Aware a)"
  shows "filter_newer (DatetimeCheckpoint (Naive T)) ls = None"
  using assms by (induction ls) (auto split: option.splits)

lemma catalog_page_listings:
  "parse_vinted_listings sample_env ''www.vinted.fr'' catalog_page =
     [item_listing ''1'' 63835596800000000, item_listing ''2'' 63835596800000001]"
proof -
  have "choose_path sample_env catalog_page =
      PrimaryPath [(''catalog'', JObject [(''items'', JArray [item_1, item_2])])]"
    using catalog_page_data by (simp add: choose_path_primary)
  then show ?thesis
    by (simp add: primary_ignores_containers(1) catalog_page_catalog)
qed

lemma aware_page_listings:
  "parse_vinted_listings sample_env ''www.vinted.fr'' aware_page =
     [(item_listing ''3'' 0)\<lparr>published_at := Some (Aware 63835596801000000)\<rparr>]"
proof -
  have "find_vinted_data sample_env (script_tags aware_page) =
      Some [(''catalog'', JObject [(''items'', JArray [item_3])])]"
    by (simp add: sample_env_def aware_page_def aware_script_def aware_payload_def
        catalog_script_def catalog_payload_def user_script_def user_payload_def quoted_def
        sublist_code)
  then have "choose_path sample_env aware_page =
      PrimaryPath [(''catalog'', JObject [(''items'', JArray [item_3])])]"
    by (simp add: choose_path_primary)
  moreover have "parse_catalog sample_env [(''catalog'', JObject [(''items'', JArray [item_3])])] =
      Some [(item_listing ''3'' 0)\<lparr>published_at := Some (Aware 63835596801000000)\<rparr>]"
    by (simp add: parse_catalog_def dict_get_def sample_env_def List.map_filter_simps item_1_def
        item_2_def item_3_def)
  ultimately show ?thesis
    by (simp add: primary_ignores_containers(1))
qed

text \<open>
  C1 does not hold of the code. The page's catalog holds two listings, published at
  22:13:20 and one microsecond later. With the checkpoint 22:13:20 as a naive datetime
  the scan returns the second listing alone, as the claim says. With the same checkpoint
  as the scheduler passes it, the text of the database column, the comparison raises and
  the scan returns nothing. And with the naive checkpoint and a page whose listing was
  published at 22:13:21Z, a timezone-aware value, the comparison raises as well and the
  scan returns nothing.
\<close>

theorem get_new_listings_comparison_raises:
  "get_new_listings sample_env ''www.vinted.fr'' (Response 200 catalog_page) NoCheckpoint =
     [item_listing ''1'' 63835596800000000, item_listing ''2'' 63835596800000001]
   \<and> get_new_listings sample_env ''www.vinted.fr'' (Response 200 catalog_page) checkpoint_datetime =
       [item_listing ''2'' 63835596800000001]
   \<and> get_new_listings sample_env ''www.vinted.fr'' (Response 200 catalog_page) checkpoint_text = []
   \<and> get_new_listings sample_env ''www.vinted.fr'' (Response 200 aware_page) NoCheckpoint =
       [(item_listing ''3'' 0)\<lparr>published_at := Some (Aware 63835596801000000)\<rparr>]
   \<and> get_new_listings sample_env ''www.vinted.fr'' (Response 200 aware_page) checkpoint_datetime = []"
  by (simp add: get_new_listings_def catalog_page_listings aware_page_listings
      checkpoint_datetime_def checkpoint_text_def item_listing_def datetime_min_def)

subsection \<open>C9: listings of the fallback path\<close>

lemma parse_html_containers_published_at:
  "l \<in> set (parse_html_containers clk netloc i cs) \<Longrightarrow>
   \<exists>j. i \<le> j \<and> j < i + length cs \<and> published_at l = Some (Naive (clk j))"
proof (induction cs arbitrary: i)
  case Nil
  then show ?case by simp
next
  case (Cons c cs)
  have step: "\<exists>j. i \<le> j \<and> j < i + length (c # cs) \<and> published_at l = Some (Naive (clk j))"
    if "l \<in> set (parse_html_containers clk netloc (Suc i) cs)"
  proof -
    from Cons.IH [OF that] obtain j where "Suc i \<le> j" "j < Suc i + length cs"
        "published_at l = Some (Naive (clk j))"
      by blast
    then show ?thesis
      by (intro exI [of _ j]) simp
  qed
  show ?case
  proof (cases c)
    case ExtractionRaised
    with Cons.prems step show ?thesis by simp
  next
    case (Extracted x)
    with Cons.prems have "l = html_listing netloc (clk i) x
        \<or> l \<in> set (parse_html_containers clk netloc (Suc i) cs)"
      by (auto simp: Let_def split: if_splits)
    then show ?thesis
    proof
      assume "l = html_listing netloc (clk i) x"
      then have "published_at l = Some (Naive (clk i))"
        by (simp add: html_listing_def)
      then show ?thesis
        by (intro exI [of _ i]) simp
    qed (rule step)
  qed
qed

text \<open>
  Every listing of the fallback path carries as \<open>published_at\<close> a naive reading of the
  clock taken during the scan, and a naive datetime checkpoint earlier than those
  readings drops none of them.
\<close>

lemma parse_html_listings_published_at:
  assumes "l \<in> set (parse_html_listings env netloc sp)"
  shows "\<exists>i<min 20 (length (item_containers sp)). published_at l = Some (Naive (utcnow env i))"
proof -
  from assms obtain j where "j < 0 + length (take 20 (item_containers sp))"
      "published_at l = Some (Naive (utcnow env j))"
    unfolding parse_html_listings_def
    by (blast dest: parse_html_containers_published_at)
  then show ?thesis
    by (intro exI [of _ j]) (simp add: min.commute)
qed

lemma fallback_kept_naive_checkpoint:
  assumes "\<forall>i<20. T < utcnow env i" and "choose_path env sp = FallbackPath"
  shows "get_new_listings env netloc (Response 200 sp) (DatetimeCheckpoint (Naive T)) =
           parse_html_listings env netloc sp"
proof -
  have pub: "\<exists>i<min 20 (length (item_containers sp)). published_at l = Some (Naive (utcnow env i))"
    if "l \<in> set (parse_html_listings env netloc sp)" for l
    using that by (rule parse_html_listings_published_at)
  have parsed: "parse_vinted_listings env netloc sp = parse_html_listings env netloc sp"
    using assms(2) by (rule fallback_result)
  have naive: "\<forall>l\<in>set (parse_vinted_listings env netloc sp).
      published_at l = None \<or> (\<exists>n. published_at l = Some (Naive n))"
    using pub parsed by fastforce
  have "\<exists>n. published_at l = Some (Naive n) \<and> T < n"
    if "l \<in> set (parse_html_listings env netloc sp)" for l
  proof -
    from pub [OF that] obtain i where "i < min 20 (length (item_containers sp))"
        "published_at l = Some (Naive (utcnow env i))"
      by blast
    with assms(1) show ?thesis by simp
  qed
  then have "filter (\<lambda>l. \<exists>n. published_at l = Some (Naive n) \<and> T < n)
      (parse_html_listings env netloc sp) = parse_html_listings env netloc sp"
    by (simp add: filter_id_conv)
  with get_new_listings_naive [OF naive, of T] parsed show ?thesis
    by simp
qed

text \<open>
  C9 does not hold of the code. The page takes the fallback path and its listing carries
  the clock's reading of the scan. A naive datetime checkpoint before the scan keeps it;
  the same checkpoint as the scheduler passes it, the text of the database column, makes
  the comparison raise, and the scan returns nothing: the fallback listing is lost.
\<close>

theorem fallback_listing_lost_text_checkpoint:
  "choose_path sample_env user_page = FallbackPath
   \<and> get_new_listings sample_env ''www.vinted.fr'' (Response 200 user_page) NoCheckpoint =
       [html_listing ''www.vinted.fr'' 63900000000000000 sample_container]
   \<and> published_at (html_listing ''www.vinted.fr'' 63900000000000000 sample_container) =
       Some (Naive (utcnow sample_env 0))
   \<and> get_new_listings sample_env ''www.vinted.fr'' (Response 200 user_page) checkpoint_datetime =
       [html_listing ''www.vinted.fr'' 63900000000000000 sample_container]
   \<and> get_new_listings sample_env ''www.vinted.fr'' (Response 200 user_page) checkpoint_text = []"
proof -
  have clock: "utcnow sample_env 0 = 63900000000000000"
    by (simp add: sample_env_def)
  have "published_at (html_listing ''www.vinted.fr'' 63900000000000000 sample_container) =
      Some (Naive (utcnow sample_env 0))"
    unfolding clock by (simp add: html_listing_def)
  moreover have "get_new_listings sample_env ''www.vinted.fr'' (Response 200 user_page)
      NoCheckpoint = [html_listing ''www.vinted.fr'' 63900000000000000 sample_container]"
    by (simp add: get_new_listings_def user_page_listings)
  moreover have "get_new_listings sample_env ''www.vinted.fr'' (Response 200 user_page)
      checkpoint_datetime = [html_listing ''www.vinted.fr'' 63900000000000000 sample_container]"
    by (simp add: get_new_listings_def user_page_listings checkpoint_datetime_def
        html_listing_def datetime_min_def)
  moreover have "get_new_listings sample_env ''www.vinted.fr'' (Response 200 user_page)
      checkpoint_text = []"
    by (simp add: get_new_listings_def user_page_listings checkpoint_text_def)
  ultimately show ?thesis
    using user_page_path by simp
qed

end
